theory Spec2Isabelle
  imports Complex_Main
begin

section \<open>EMI-RNN trainer: a shallow embedding of \<open>emirnnTrainer.py\<close>\<close>

text \<open>
  The class \<open>EMI_RNNTrainer\<close> validates three inputs, attaches a loss and a train step to a
  dataflow graph and drives an externally owned session. The embedding keeps the source's
  names. Conventions:
  \<^item> every exception is a value of \<open>py_error\<close>; a method returns \<open>py_error + result\<close>,
    paired with the object state it leaves behind where the method mutates \<open>self\<close>;
  \<^item> the dataflow framework is external. Each framework call that builds a graph node is a
    constructor of \<open>tf_op\<close>, so a handle is the term that records how it was built; the
    framework's own shape inference and its own failures are not part of this file;
  \<^item> a tensor handed in by the caller carries a statically known shape (a list of naturals);
  \<^item> a numpy array is its shape together with its row-major buffer; the entries are
    integers and sums are exact.
\<close>

subsection \<open>Exceptions\<close>

datatype py_error =
    AssertionError "string option"
  | IndexError
  | TypeError
  | AttributeError string
  | UnboundLocalError string
  | ZeroDivisionError
  | ValueError
  | OutOfRangeError
  | OtherError string

definition assert_that :: "bool \<Rightarrow> string option \<Rightarrow> py_error + unit" where
  "assert_that b msg = (if b then Inr () else Inl (AssertionError msg))"

definition and_then :: "py_error + 'a \<Rightarrow> ('a \<Rightarrow> py_error + 'b) \<Rightarrow> py_error + 'b" where
  "and_then r f = (case r of Inl e \<Rightarrow> Inl e | Inr x \<Rightarrow> f x)"

subsection \<open>Arrays, tensors and graph nodes\<close>

record ndarray =
  shape :: "nat list"
  data :: "int list"


definition ndim :: "ndarray \<Rightarrow> nat" where
  "ndim a = length (shape a)"

text \<open>\<open>xs[i]\<close> for a non-negative index: out of range raises \<open>IndexError\<close>.\<close>

definition getitem :: "'a list \<Rightarrow> nat \<Rightarrow> py_error + 'a" where
  "getitem xs i = (if i < length xs then Inr (xs ! i) else Inl IndexError)"

text \<open>
  \<open>a[i, j]\<close> for non-negative \<open>i\<close> and \<open>j\<close>. The source reads entries only after it
  has asserted \<open>ndim == 2\<close>; with fewer dimensions numpy raises \<open>IndexError\<close>.
\<close>

definition getitem2 :: "ndarray \<Rightarrow> nat \<Rightarrow> nat \<Rightarrow> py_error + int" where
  "getitem2 a i j =
     (case shape a of
        [r, c] \<Rightarrow> if i < r \<and> j < c then getitem (data a) (i * c + j) else Inl IndexError
      | _ \<Rightarrow> Inl IndexError)"

text \<open>\<open>len(a)\<close>: the first dimension; an array without dimensions has no length.\<close>

definition len :: "ndarray \<Rightarrow> py_error + nat" where
  "len a = (case shape a of [] \<Rightarrow> Inl TypeError | n # _ \<Rightarrow> Inr n)"

text \<open>
  \<open>a[:k]\<close> and \<open>a[k:]\<close> for \<open>k \<ge> 0\<close>: slices along the first axis. A bound past the end
  is clipped, as Python does; an array without dimensions cannot be sliced.
\<close>

definition slice_to :: "ndarray \<Rightarrow> nat \<Rightarrow> py_error + ndarray" where
  "slice_to a k =
     (case shape a of
        [] \<Rightarrow> Inl IndexError
      | n # rest \<Rightarrow>
          Inr \<lparr>shape = min k n # rest, data = take (min k n * prod_list rest) (data a)\<rparr>)"

definition slice_from :: "ndarray \<Rightarrow> nat \<Rightarrow> py_error + ndarray" where
  "slice_from a k =
     (case shape a of
        [] \<Rightarrow> Inl IndexError
      | n # rest \<Rightarrow>
          Inr \<lparr>shape = (n - min k n) # rest,
               data = drop (min k n * prod_list rest) (data a)\<rparr>)"

definition np_sum :: "ndarray \<Rightarrow> int" where
  "np_sum a = sum_list (data a)"

datatype tensor = Tensor (tname: string) (tshape: "nat list")

datatype tf_graph = Graph string

datatype tf_op =
    Input tensor
  | ExpandDims tf_op int
  | Tile tf_op "int list"
  | Variable ndarray string bool
  | Reshape tf_op "int list"
  | Subtract tf_op tf_op
  | Multiply tf_op tf_op
  | SliceSteps tf_op int
  | SoftmaxCrossEntropy tf_op tf_op
  | ReduceMean tf_op string
  | L2Loss tf_op string
  | AdamMinimize real "tf_op option"

text \<open>
  \<open>Variable v name trainable\<close> is \<open>tf.Variable(v, name=name, trainable=trainable)\<close>;
  \<open>SliceSteps x idx\<close> is \<open>x[:, idx:, :]\<close>; \<open>SoftmaxCrossEntropy labels logits\<close> is
  \<open>tf.nn.softmax_cross_entropy_with_logits_v2(labels=labels, logits=logits)\<close>;
  \<open>AdamMinimize s l\<close> is \<open>tf.train.AdamOptimizer(s).minimize(l)\<close>.
\<close>

text \<open>The op collections of the default graph: \<open>tf.add_to_collection\<close> appends.\<close>

type_synonym collections = "string \<Rightarrow> tf_op option list"

definition add_to_collection :: "string \<Rightarrow> tf_op option \<Rightarrow> collections \<Rightarrow> collections" where
  "add_to_collection name v c = c(name := c name @ [v])"

subsection \<open>The trainer object\<close>

record trainer =
  numTimeSteps :: int
  numOutput :: int
  graph :: "tf_graph option"
  stepSize :: real
  lossType :: string
  optimizer :: string
  automode :: bool
  validInit :: bool
  graphCreated :: bool
  lossOp :: "tf_op option"
  trainOp :: "tf_op option"
  lossIndicatorTensor :: "tf_op option"
  supportedLosses :: "string list"
  supportedOptimizers :: "string list"

text \<open>\<open>__init__\<close>: the fields are set, then the two assertions run.\<close>

definition init ::
  "int \<Rightarrow> int \<Rightarrow> tf_graph option \<Rightarrow> real \<Rightarrow> string \<Rightarrow> string \<Rightarrow> bool \<Rightarrow> py_error + trainer" where
  "init numTimeSteps' numOutput' graph' stepSize' lossType' optimizer' automode' =
     (let self = \<lparr>numTimeSteps = numTimeSteps', numOutput = numOutput', graph = graph',
                  stepSize = stepSize', lossType = lossType', optimizer = optimizer',
                  automode = automode', validInit = False, graphCreated = False,
                  lossOp = None, trainOp = None, lossIndicatorTensor = None,
                  supportedLosses = [''xentropy'', ''l2''],
                  supportedOptimizers = [''Adam'']\<rparr>
      in and_then (assert_that (lossType' \<in> set (supportedLosses self)) None) (\<lambda>_.
         and_then (assert_that (optimizer' \<in> set (supportedOptimizers self)) None) (\<lambda>_.
         Inr self)))"

text \<open>
  \<open>__findIndicatorStart\<close>: the \<open>for\<close> loop over \<open>range(lossIndicator.shape[0])\<close> is the
  recursion over the list of row indices.
\<close>

fun findIndicatorStart_loop :: "ndarray \<Rightarrow> nat list \<Rightarrow> py_error + int" where
  "findIndicatorStart_loop lossIndicator [] = Inr (- 1)"
| "findIndicatorStart_loop lossIndicator (i # rest) =
     and_then (getitem2 lossIndicator i 0) (\<lambda>v.
       if v = 1 then Inr (int i) else findIndicatorStart_loop lossIndicator rest)"

definition findIndicatorStart :: "ndarray \<Rightarrow> py_error + int" where
  "findIndicatorStart lossIndicator =
     and_then (assert_that (ndim lossIndicator = 2) None) (\<lambda>_.
     and_then (getitem (shape lossIndicator) 0) (\<lambda>n.
       findIndicatorStart_loop lossIndicator [0..<n]))"

text \<open>\<open>__validateInit\<close>: the checks in the order of the source.\<close>

definition validateInit :: "trainer \<Rightarrow> tensor \<Rightarrow> tensor \<Rightarrow> ndarray \<Rightarrow> py_error + trainer" where
  "validateInit self predicted target lossIndicator =
     (let msg = Some ''Predicted/Target tensors have incorrect dimension'' in
      and_then (assert_that (length (tshape predicted) = 4) msg) (\<lambda>_.
      and_then (getitem (tshape predicted) 3) (\<lambda>p3.
      and_then (assert_that (int p3 = numOutput self) msg) (\<lambda>_.
      and_then (getitem (tshape predicted) 2) (\<lambda>p2.
      and_then (assert_that (int p2 = numTimeSteps self) msg) (\<lambda>_.
      and_then (getitem (tshape predicted) 1) (\<lambda>p1.
      and_then (getitem (tshape target) 1) (\<lambda>t1.
      and_then (assert_that (p1 = t1) msg) (\<lambda>_.
      and_then (assert_that (length (tshape target) = 3) None) (\<lambda>_.
      and_then (getitem (tshape target) 2) (\<lambda>t2.
      and_then (assert_that (int t2 = numOutput self) None) (\<lambda>_.
      (let msg = Some ''Invalid lossIndicator passed'' in
       and_then (assert_that (ndim lossIndicator = 2) msg) (\<lambda>_.
       and_then (findIndicatorStart lossIndicator) (\<lambda>idx.
       and_then (assert_that (idx \<ge> 0) msg) (\<lambda>_.
       and_then (slice_to lossIndicator (nat idx)) (\<lambda>before.
       and_then (assert_that (np_sum before = 0) msg) (\<lambda>_.
       and_then (len lossIndicator) (\<lambda>n.
       (let expected = (int n - idx) * numOutput self in
        and_then (slice_from lossIndicator (nat idx)) (\<lambda>rest.
        and_then (assert_that (np_sum rest = expected) msg) (\<lambda>_.
        Inr (self\<lparr>validInit := True\<rparr>)))))))))))))))))))))))"

subsection \<open>Building the graph\<close>

text \<open>\<open>__transformY\<close>: the target is tiled to every time step.\<close>

definition transformY :: "trainer \<Rightarrow> tensor \<Rightarrow> tf_op" where
  "transformY self target =
     (let A' = ExpandDims (Input target) 2;
          A'' = Tile A' [1, 1, numTimeSteps self, 1]
      in A'')"

text \<open>
  \<open>lossIndicator.astype('float32')\<close>: the entries are integers in this file, and the cast
  keeps the array as it is.
\<close>

definition astype_float32 :: "ndarray \<Rightarrow> ndarray" where
  "astype_float32 a = a"

text \<open>
  \<open>__createLossOp\<close> stores the mask variable in \<open>self\<close> before it looks for the start
  index, so the object state is returned together with the result. A \<open>lossType\<close> that is
  neither branch leaves the local \<open>lossOp\<close> unbound at the \<open>return\<close>.
\<close>

definition createLossOp ::
  "trainer \<Rightarrow> tensor \<Rightarrow> tf_op \<Rightarrow> ndarray \<Rightarrow> (py_error + tf_op) \<times> trainer" where
  "createLossOp self predicted target lossIndicator =
     (if \<not> validInit self then (Inl (AssertionError (Some ''Initialization failure'')), self)
      else
        let lossIndicator = astype_float32 lossIndicator;
            lossIndicatorTensor' = Variable lossIndicator ''lossIndicator'' False;
            self = self\<lparr>lossIndicatorTensor := Some lossIndicatorTensor'\<rparr>;
            logits = Reshape (Input predicted) [- 1, numTimeSteps self, numOutput self];
            labels = Reshape target [- 1, numTimeSteps self, numOutput self];
            diff = Subtract logits labels;
            diff = Multiply lossIndicatorTensor' diff
        in (and_then (findIndicatorStart lossIndicator) (\<lambda>idx.
              let logits = SliceSteps logits idx;
                  labels = SliceSteps labels idx;
                  logits = Reshape logits [- 1, numOutput self];
                  labels = Reshape labels [- 1, numOutput self]
              in if lossType self = ''xentropy'' then
                   (let softmax1 = SoftmaxCrossEntropy labels logits
                    in Inr (ReduceMean softmax1 ''xentropy-loss''))
                 else if lossType self = ''l2'' then Inr (L2Loss diff ''l2-loss'')
                 else Inl (UnboundLocalError ''lossOp'')),
            self))"

definition createTrainOp :: "trainer \<Rightarrow> tf_op" where
  "createTrainOp self = (let tst = AdamMinimize (stepSize self) (lossOp self) in tst)"

definition createOpCollections :: "trainer \<Rightarrow> collections \<Rightarrow> collections" where
  "createOpCollections self c =
     add_to_collection ''EMI-loss-op'' (lossOp self)
       (add_to_collection ''EMI-train-op'' (trainOp self) c)"

definition createGraph ::
  "trainer \<Rightarrow> tensor \<Rightarrow> tensor \<Rightarrow> ndarray \<Rightarrow> collections
     \<Rightarrow> (py_error + unit) \<times> trainer \<times> collections" where
  "createGraph self predicted target lossIndicator c =
     (let target' = transformY self target in
      case createLossOp self predicted target' lossIndicator of
        (Inl e, self) \<Rightarrow> (Inl e, self, c)
      | (Inr l, self) \<Rightarrow>
          let self = self\<lparr>lossOp := Some l\<rparr>;
              self = self\<lparr>trainOp := Some (createTrainOp self)\<rparr>;
              c = (if automode self then createOpCollections self c else c);
              self = self\<lparr>graphCreated := True\<rparr>
          in (Inr (), self, c))"

text \<open>
  \<open>__call__\<close>. The class defines no \<open>_restoreGraph\<close>, so the attribute lookup in the
  \<open>else\<close> branch raises \<open>AttributeError\<close>.
\<close>

definition call ::
  "trainer \<Rightarrow> tensor \<Rightarrow> tensor \<Rightarrow> ndarray \<Rightarrow> collections
     \<Rightarrow> (py_error + tf_op option \<times> tf_op option) \<times> trainer \<times> collections" where
  "call self predicted target lossIndicator c =
     (if graphCreated self then
        (if lossOp self = None then (Inl (AssertionError None), self, c)
         else if trainOp self = None then (Inl (AssertionError None), self, c)
         else (Inr (lossOp self, trainOp self), self, c))
      else
        case validateInit self predicted target lossIndicator of
          Inl e \<Rightarrow> (Inl e, self, c)
        | Inr self \<Rightarrow>
            (if \<not> validInit self then (Inl (AssertionError None), self, c)
             else
               (case (case graph self of
                        None \<Rightarrow> createGraph self predicted target lossIndicator c
                      | Some g \<Rightarrow> (Inl (AttributeError ''_restoreGraph''), self, c)) of
                  (Inl e, self, c) \<Rightarrow> (Inl e, self, c)
                | (Inr u, self, c) \<Rightarrow>
                    if \<not> graphCreated self then (Inl (AssertionError None), self, c)
                    else (Inr (lossOp self, trainOp self), self, c))))"

text \<open>The trainer after a sequence of calls, whatever each of them returned or raised.\<close>

fun after_calls ::
  "trainer \<Rightarrow> collections \<Rightarrow> (tensor \<times> tensor \<times> ndarray) list \<Rightarrow> trainer \<times> collections" where
  "after_calls self c [] = (self, c)"
| "after_calls self c ((predicted, target, lossIndicator) # rest) =
     (case call self predicted target lossIndicator c of
        (r, self', c') \<Rightarrow> after_calls self' c' rest)"

subsection \<open>Training\<close>







section \<open>Definitions used to state the properties\<close>

text \<open>
  The two loss handles, written out from their description: the L2 loss of the mask times
  the difference between the reshaped predictions and the reshaped tiled target, and the
  mean softmax cross-entropy over the time steps from \<open>idx\<close> onward.
\<close>

definition masked_l2_loss :: "trainer \<Rightarrow> tensor \<Rightarrow> tensor \<Rightarrow> ndarray \<Rightarrow> tf_op" where
  "masked_l2_loss self predicted target lossIndicator =
     L2Loss
       (Multiply (Variable lossIndicator ''lossIndicator'' False)
          (Subtract
             (Reshape (Input predicted) [- 1, numTimeSteps self, numOutput self])
             (Reshape (Tile (ExpandDims (Input target) 2) [1, 1, numTimeSteps self, 1])
                [- 1, numTimeSteps self, numOutput self])))
       ''l2-loss''"

definition xentropy_loss_from :: "trainer \<Rightarrow> tensor \<Rightarrow> tensor \<Rightarrow> int \<Rightarrow> tf_op" where
  "xentropy_loss_from self predicted target idx =
     ReduceMean
       (SoftmaxCrossEntropy
          (Reshape
             (SliceSteps
                (Reshape (Tile (ExpandDims (Input target) 2) [1, 1, numTimeSteps self, 1])
                   [- 1, numTimeSteps self, numOutput self]) idx)
             [- 1, numOutput self])
          (Reshape
             (SliceSteps (Reshape (Input predicted) [- 1, numTimeSteps self, numOutput self]) idx)
             [- 1, numOutput self]))
       ''xentropy-loss''"

definition loss_handle :: "trainer \<Rightarrow> tensor \<Rightarrow> tensor \<Rightarrow> ndarray \<Rightarrow> int \<Rightarrow> tf_op" where
  "loss_handle self predicted target lossIndicator idx =
     (if lossType self = ''xentropy'' then xentropy_loss_from self predicted target idx
      else masked_l2_loss self predicted target lossIndicator)"

text \<open>A trainer whose graph is marked as created holds both handles.\<close>

definition handles_cached :: "trainer \<Rightarrow> bool" where
  "handles_cached self = (graphCreated self \<longrightarrow> lossOp self \<noteq> None \<and> trainOp self \<noteq> None)"

text \<open>
  Concrete inputs at which the theorems below are instantiated: a trainer for three time
  steps and two outputs, a batch of five bags of four sub-instances, and a mask that
  switches the loss on from the second time step.
\<close>

definition ex_trainer :: "string \<Rightarrow> tf_graph option \<Rightarrow> bool \<Rightarrow> trainer" where
  "ex_trainer lt g am =
     \<lparr>numTimeSteps = 3, numOutput = 2, graph = g, stepSize = 1 / 1000, lossType = lt,
      optimizer = ''Adam'', automode = am, validInit = False, graphCreated = False,
      lossOp = None, trainOp = None, lossIndicatorTensor = None,
      supportedLosses = [''xentropy'', ''l2''], supportedOptimizers = [''Adam'']\<rparr>"

definition ex_predicted :: tensor where
  "ex_predicted = Tensor ''predicted'' [5, 4, 3, 2]"

definition ex_target :: tensor where
  "ex_target = Tensor ''target'' [5, 4, 2]"

definition ex_indicator :: ndarray where
  "ex_indicator = \<lparr>shape = [3, 2], data = [0, 0, 1, 1, 1, 1]\<rparr>"

definition no_collections :: collections where
  "no_collections = (\<lambda>name. [])"

definition bad_tensor :: tensor where
  "bad_tensor = Tensor ''scalar'' []"

definition bad_indicator :: ndarray where
  "bad_indicator = \<lparr>shape = [], data = [7]\<rparr>"

text \<open>
  The shape checks and the acceptance condition for the mask, written out from their
  description: \<open>idx\<close> is the least row index whose first entry is 1, the entries of
  the rows before \<open>idx\<close> sum to 0 and the entries of the rows from \<open>idx\<close> on sum to
  the number of those rows times \<open>numOutput\<close>.
\<close>

definition shape_checks_pass :: "trainer \<Rightarrow> tensor \<Rightarrow> tensor \<Rightarrow> bool" where
  "shape_checks_pass self predicted target =
     (length (tshape predicted) = 4
      \<and> int (tshape predicted ! 3) = numOutput self
      \<and> int (tshape predicted ! 2) = numTimeSteps self
      \<and> length (tshape target) = 3
      \<and> tshape predicted ! 1 = tshape target ! 1
      \<and> int (tshape target ! 2) = numOutput self)"









definition ex_flat_target :: tensor where
  "ex_flat_target = Tensor ''target'' [5]"



section \<open>Properties\<close>

subsection \<open>Basic facts about the methods\<close>

lemma validateInit_Inr:
  "validateInit self p y li = Inr s' \<Longrightarrow> s' = self\<lparr>validInit := True\<rparr>"
  by (auto simp: validateInit_def and_then_def assert_that_def Let_def split: sum.splits if_splits)


lemma init_Inr:
  "init T O' g s lt opt am = Inr self \<Longrightarrow>
     self = \<lparr>numTimeSteps = T, numOutput = O', graph = g, stepSize = s, lossType = lt,
             optimizer = opt, automode = am, validInit = False, graphCreated = False,
             lossOp = None, trainOp = None, lossIndicatorTensor = None,
             supportedLosses = [''xentropy'', ''l2''], supportedOptimizers = [''Adam'']\<rparr>
     \<and> lt \<in> {''xentropy'', ''l2''} \<and> opt = ''Adam''"
  by (auto simp: init_def and_then_def assert_that_def Let_def split: sum.splits if_splits)

lemma createLossOp_ok:
  assumes "validInit self" and "findIndicatorStart li = Inr idx"
    and "lossType self \<in> {''xentropy'', ''l2''}"
  shows "createLossOp self p (transformY self y) li =
           (Inr (loss_handle self p y li idx),
            self\<lparr>lossIndicatorTensor := Some (Variable li ''lossIndicator'' False)\<rparr>)"
  using assms
  by (auto simp: createLossOp_def astype_float32_def and_then_def Let_def transformY_def
      loss_handle_def masked_l2_loss_def xentropy_loss_from_def)

lemma createGraph_ok:
  assumes "validInit self" and "findIndicatorStart li = Inr idx"
    and "lossType self \<in> {''xentropy'', ''l2''}"
  shows "createGraph self p y li c =
           (Inr (),
            self\<lparr>lossIndicatorTensor := Some (Variable li ''lossIndicator'' False),
                 lossOp := Some (loss_handle self p y li idx),
                 trainOp := Some (AdamMinimize (stepSize self) (Some (loss_handle self p y li idx))),
                 graphCreated := True\<rparr>,
            if automode self
            then add_to_collection ''EMI-loss-op'' (Some (loss_handle self p y li idx))
                   (add_to_collection ''EMI-train-op''
                      (Some (AdamMinimize (stepSize self) (Some (loss_handle self p y li idx)))) c)
            else c)"
  unfolding createGraph_def Let_def createLossOp_ok[OF assms]
  by (simp add: createTrainOp_def createOpCollections_def)

lemma call_first_ok:
  assumes "\<not> graphCreated self" and "graph self = None"
    and "lossType self \<in> {''xentropy'', ''l2''}"
    and "validateInit self p y li = Inr s'" and "findIndicatorStart li = Inr idx"
  shows "call self p y li c =
           (Inr (Some (loss_handle self p y li idx),
                 Some (AdamMinimize (stepSize self) (Some (loss_handle self p y li idx)))),
            self\<lparr>validInit := True,
                 lossIndicatorTensor := Some (Variable li ''lossIndicator'' False),
                 lossOp := Some (loss_handle self p y li idx),
                 trainOp := Some (AdamMinimize (stepSize self) (Some (loss_handle self p y li idx))),
                 graphCreated := True\<rparr>,
            if automode self
            then add_to_collection ''EMI-loss-op'' (Some (loss_handle self p y li idx))
                   (add_to_collection ''EMI-train-op''
                      (Some (AdamMinimize (stepSize self) (Some (loss_handle self p y li idx)))) c)
            else c)"
proof -
  let ?s = "self\<lparr>validInit := True\<rparr>"
  have v: "validateInit self p y li = Inr ?s"
    using assms(4) validateInit_Inr[OF assms(4)] by simp
  have lh: "loss_handle ?s p y li idx = loss_handle self p y li idx"
    by (simp add: loss_handle_def masked_l2_loss_def xentropy_loss_from_def)
  have g: "createGraph ?s p y li c =
           (Inr (),
            ?s\<lparr>lossIndicatorTensor := Some (Variable li ''lossIndicator'' False),
                 lossOp := Some (loss_handle ?s p y li idx),
                 trainOp := Some (AdamMinimize (stepSize ?s) (Some (loss_handle ?s p y li idx))),
                 graphCreated := True\<rparr>,
            if automode ?s
            then add_to_collection ''EMI-loss-op'' (Some (loss_handle ?s p y li idx))
                   (add_to_collection ''EMI-train-op''
                      (Some (AdamMinimize (stepSize ?s) (Some (loss_handle ?s p y li idx)))) c)
            else c)"
    by (rule createGraph_ok) (use assms in simp_all)
  show ?thesis
    using assms(1,2) by (simp add: call_def v g lh)
qed

subsection \<open>The constructor\<close>

lemma init_eq:
  "init T O' g s lt opt am =
     (if lt \<in> {''xentropy'', ''l2''} \<and> opt = ''Adam''
      then Inr \<lparr>numTimeSteps = T, numOutput = O', graph = g, stepSize = s, lossType = lt,
             optimizer = opt, automode = am, validInit = False, graphCreated = False,
             lossOp = None, trainOp = None, lossIndicatorTensor = None,
             supportedLosses = [''xentropy'', ''l2''], supportedOptimizers = [''Adam'']\<rparr>
      else Inl (AssertionError None))"
  by (simp add: init_def and_then_def assert_that_def Let_def)

text \<open>
  C4. Constructing a trainer raises an \<open>AssertionError\<close> if and only if \<open>lossType\<close> is
  not one of \<open>xentropy\<close> and \<open>l2\<close>, or \<open>optimizer\<close> is not \<open>Adam\<close>; for every
  supported combination the constructor returns normally, and an assertion failure is the
  only way it raises.
\<close>

theorem init_raises_iff:
  "((init T O' g s lt opt am = Inl (AssertionError None))
      = (lt \<notin> {''xentropy'', ''l2''} \<or> opt \<noteq> ''Adam''))
   \<and> ((\<exists>self. init T O' g s lt opt am = Inr self)
      = (lt \<in> {''xentropy'', ''l2''} \<and> opt = ''Adam''))
   \<and> (\<forall>e. init T O' g s lt opt am = Inl e \<longrightarrow> e = AssertionError None)"
  by (cases "lt \<in> {''xentropy'', ''l2''} \<and> opt = ''Adam''") (simp_all only: init_eq if_True if_False, auto)

theorem init_raises_iff_witness:
  "init 3 2 None (1 / 1000) ''hinge'' ''Adam'' True = Inl (AssertionError None)
   \<and> init 3 2 None (1 / 1000) ''l2'' ''SGD'' True = Inl (AssertionError None)
   \<and> (\<exists>self. init 3 2 None (1 / 1000) ''xentropy'' ''Adam'' True = Inr self)"
proof (intro conjI)
  show "init 3 2 None (1 / 1000) ''hinge'' ''Adam'' True = Inl (AssertionError None)"
    by (rule iffD2 [OF conjunct1 [OF init_raises_iff]]) simp
  show "init 3 2 None (1 / 1000) ''l2'' ''SGD'' True = Inl (AssertionError None)"
    by (rule iffD2 [OF conjunct1 [OF init_raises_iff]]) simp
  show "\<exists>self. init 3 2 None (1 / 1000) ''xentropy'' ''Adam'' True = Inr self"
    by (rule iffD2 [OF conjunct1 [OF conjunct2 [OF init_raises_iff]]]) simp
qed

subsection \<open>Both handles are present once the graph is created\<close>

lemma validateInit_keeps:
  "validateInit self p y li = Inr s' \<Longrightarrow>
     graphCreated s' = graphCreated self \<and> lossOp s' = lossOp self
     \<and> trainOp s' = trainOp self \<and> validInit s'"
  by (drule validateInit_Inr) simp

lemma createLossOp_keeps:
  "createLossOp self p y' li = (r, s') \<Longrightarrow>
     graphCreated s' = graphCreated self \<and> lossOp s' = lossOp self \<and> trainOp s' = trainOp self"
  by (auto simp: createLossOp_def Let_def split: if_splits)

lemma createGraph_cases:
  assumes "createGraph self p y li c = (r, s', c')"
  shows "(\<exists>e. r = Inl e \<and> graphCreated s' = graphCreated self \<and> lossOp s' = lossOp self
             \<and> trainOp s' = trainOp self \<and> c' = c)
         \<or> (r = Inr () \<and> graphCreated s' \<and> lossOp s' \<noteq> None \<and> trainOp s' \<noteq> None)"
proof (cases "createLossOp self p (transformY self y) li")
  case (Pair r1 s1)
  note k = createLossOp_keeps [OF Pair]
  show ?thesis
  proof (cases r1)
    case (Inl e)
    with assms Pair k show ?thesis
      by (auto simp: createGraph_def Let_def)
  next
    case (Inr l)
    with assms Pair show ?thesis
      by (auto simp: createGraph_def Let_def)
  qed
qed

lemma call_cached_eq:
  "graphCreated self \<Longrightarrow> lossOp self \<noteq> None \<Longrightarrow> trainOp self \<noteq> None \<Longrightarrow>
     call self p y li c = (Inr (lossOp self, trainOp self), self, c)"
  by (simp add: call_def)

lemma call_keeps_handles_cached:
  assumes "handles_cached self" and "call self p y li c = (r, s', c')"
  shows "handles_cached s'"
proof (cases "graphCreated self")
  case True
  with assms show ?thesis
    by (auto simp: call_def handles_cached_def split: if_splits)
next
  case False
  show ?thesis
  proof (cases "validateInit self p y li")
    case (Inl e)
    with assms False show ?thesis
      by (simp add: call_def)
  next
    case (Inr s1)
    note k = validateInit_keeps [OF Inr]
    show ?thesis
    proof (cases "graph s1")
      case (Some g)
      with assms False Inr k show ?thesis
        by (auto simp: call_def handles_cached_def)
    next
      case None
      obtain r2 s2 c2 where g: "createGraph s1 p y li c = (r2, s2, c2)"
        by (cases "createGraph s1 p y li c") auto
      from createGraph_cases [OF g] assms False Inr k None g show ?thesis
        by (auto simp: call_def handles_cached_def split: if_splits)
    qed
  qed
qed

lemma after_calls_handles_cached:
  "handles_cached self \<Longrightarrow> after_calls self c calls = (s', c') \<Longrightarrow> handles_cached s'"
proof (induction calls arbitrary: self c)
  case Nil
  then show ?case by simp
next
  case (Cons a calls)
  obtain p y li where a: "a = (p, y, li)"
    by (cases a) auto
  obtain r s1 c1 where c: "call self p y li c = (r, s1, c1)"
    by (cases "call self p y li c") auto
  from Cons.prems(2) a c have "after_calls s1 c1 calls = (s', c')"
    by simp
  moreover have "handles_cached s1"
    using call_keeps_handles_cached [OF Cons.prems(1) c] .
  ultimately show ?case
    by (rule Cons.IH [rotated])
qed

lemma init_handles_cached: "init T O' g s lt opt am = Inr self \<Longrightarrow> handles_cached self"
  by (drule init_Inr) (simp add: handles_cached_def)

subsection \<open>The example inputs\<close>

lemma ex_init:
  "lt \<in> {''xentropy'', ''l2''} \<Longrightarrow>
     init 3 2 g (1 / 1000) lt ''Adam'' am = Inr (ex_trainer lt g am)"
  by (simp only: init_eq ex_trainer_def) simp

lemma ex_start: "findIndicatorStart ex_indicator = Inr 1"
  by (simp add: findIndicatorStart_def ex_indicator_def ndim_def and_then_def assert_that_def
      getitem_def getitem2_def upt_rec)

lemma ex_valid:
  "validateInit (ex_trainer lt g am) ex_predicted ex_target ex_indicator
     = Inr ((ex_trainer lt g am)\<lparr>validInit := True\<rparr>)"
  by (simp add: validateInit_def ex_start ex_predicted_def ex_target_def and_then_def
      assert_that_def getitem_def Let_def)
    (simp add: ex_indicator_def ex_trainer_def ndim_def np_sum_def slice_to_def slice_from_def
      len_def and_then_def assert_that_def)

lemma ex_trainer_fields:
  "\<not> graphCreated (ex_trainer lt g am)" "graph (ex_trainer lt g am) = g"
  "lossType (ex_trainer lt g am) = lt" "automode (ex_trainer lt g am) = am"
  "stepSize (ex_trainer lt g am) = 1 / 1000"
  by (simp_all add: ex_trainer_def)

lemma ex_first_call:
  assumes "lt \<in> {''xentropy'', ''l2''}"
  shows "\<exists>self'. call (ex_trainer lt None am) ex_predicted ex_target ex_indicator c =
           (Inr (Some (loss_handle (ex_trainer lt None am) ex_predicted ex_target ex_indicator 1),
                 Some (AdamMinimize (1 / 1000)
                   (Some (loss_handle (ex_trainer lt None am) ex_predicted ex_target ex_indicator 1)))),
            self',
            if am
            then add_to_collection ''EMI-loss-op''
                   (Some (loss_handle (ex_trainer lt None am) ex_predicted ex_target ex_indicator 1))
                   (add_to_collection ''EMI-train-op''
                      (Some (AdamMinimize (1 / 1000)
                        (Some (loss_handle (ex_trainer lt None am) ex_predicted ex_target ex_indicator 1)))) c)
            else c) \<and> graphCreated self'"
  using call_first_ok [OF ex_trainer_fields(1) _ _ ex_valid ex_start, of lt None am c] assms
  by (simp add: ex_trainer_fields)

lemma ex_bad: "validateInit self bad_tensor bad_tensor bad_indicator =
    Inl (AssertionError (Some ''Predicted/Target tensors have incorrect dimension''))"
  by (simp add: validateInit_def bad_tensor_def and_then_def assert_that_def)

subsection \<open>Calls after the graph is created\<close>

text \<open>
  C9. Calling the trainer is idempotent once the graph is created: for every trainer that
  the constructor returned and that has since been called any number of times, if
  \<open>graphCreated\<close> is set then a further call returns the cached pair
  \<open>(lossOp, trainOp)\<close>, both present, and changes neither the trainer nor the
  collections. The arguments are not inspected, so arguments that fail the shape checks
  are accepted too.
\<close>

theorem call_returns_cached_pair:
  assumes "init T O' g s lt opt am = Inr self0"
    and "after_calls self0 c0 calls = (self, c)"
    and "graphCreated self"
  shows "call self predicted target lossIndicator c = (Inr (lossOp self, trainOp self), self, c)
         \<and> lossOp self \<noteq> None \<and> trainOp self \<noteq> None"
proof -
  have "handles_cached self"
    using after_calls_handles_cached [OF init_handles_cached [OF assms(1)] assms(2)] .
  with assms(3) have h: "lossOp self \<noteq> None" "trainOp self \<noteq> None"
    by (simp_all add: handles_cached_def)
  with call_cached_eq [OF assms(3) h] show ?thesis
    by simp
qed

theorem call_returns_cached_pair_witness:
  "\<exists>self c.
     after_calls (ex_trainer ''l2'' None True) no_collections
       [(ex_predicted, ex_target, ex_indicator)] = (self, c)
     \<and> graphCreated self
     \<and> (\<exists>e. validateInit self bad_tensor bad_tensor bad_indicator = Inl e)
     \<and> call self bad_tensor bad_tensor bad_indicator c = (Inr (lossOp self, trainOp self), self, c)
     \<and> lossOp self \<noteq> None \<and> trainOp self \<noteq> None"
proof -
  have lt: "''l2'' \<in> {''xentropy'', ''l2''}"
    by simp
  from ex_first_call [OF lt, of True no_collections]
  obtain r self c where
    c: "call (ex_trainer ''l2'' None True) ex_predicted ex_target ex_indicator no_collections
          = (r, self, c)" and g: "graphCreated self"
    by blast
  from c have a: "after_calls (ex_trainer ''l2'' None True) no_collections
       [(ex_predicted, ex_target, ex_indicator)] = (self, c)"
    by simp
  from call_returns_cached_pair [OF ex_init [OF lt] a g, of bad_tensor bad_tensor bad_indicator]
    a g ex_bad [of self]
  show ?thesis
    by blast
qed

subsection \<open>The first call\<close>







text \<open>
  C8. For every trainer constructed with a graph argument other than \<open>None\<close>, the first
  call on inputs that pass the validation does not return the two handles: after the
  validation has succeeded (and has set the valid-init flag) it looks up \<open>_restoreGraph\<close>,
  which the class does not define, and raises \<open>AttributeError\<close>.
\<close>

theorem call_with_graph_raises_AttributeError:
  assumes "init T O' (Some g) s lt opt am = Inr self"
    and "validateInit self predicted target lossIndicator = Inr self'"
  shows "call self predicted target lossIndicator c
           = (Inl (AttributeError ''_restoreGraph''), self\<lparr>validInit := True\<rparr>, c)"
proof -
  from init_Inr [OF assms(1)] have f: "\<not> graphCreated self" "graph self = Some g"
    by auto
  have v: "validateInit self predicted target lossIndicator = Inr (self\<lparr>validInit := True\<rparr>)"
    using assms(2) validateInit_Inr [OF assms(2)] by simp
  show ?thesis
    using f by (simp add: call_def v)
qed

theorem call_with_graph_raises_AttributeError_witness:
  "call (ex_trainer ''l2'' (Some (Graph ''saved'')) True) ex_predicted ex_target ex_indicator
     no_collections
     = (Inl (AttributeError ''_restoreGraph''),
        (ex_trainer ''l2'' (Some (Graph ''saved'')) True)\<lparr>validInit := True\<rparr>, no_collections)"
proof -
  have "''l2'' \<in> {''xentropy'', ''l2''}"
    by simp
  from call_with_graph_raises_AttributeError [OF ex_init [OF this] ex_valid] show ?thesis .
qed

subsection \<open>Failed validation\<close>

lemma findIndicatorStart_loop_errors:
  "findIndicatorStart_loop a is = Inl e \<Longrightarrow> e = IndexError"
  by (induction "is") (auto simp: and_then_def getitem2_def getitem_def
      split: sum.splits if_splits list.splits)

lemma findIndicatorStart_errors:
  "findIndicatorStart a = Inl e \<Longrightarrow> e = AssertionError None \<or> e = IndexError"
  by (auto simp: findIndicatorStart_def and_then_def assert_that_def getitem_def
      split: sum.splits if_splits dest: findIndicatorStart_loop_errors)

lemma call_validation_error:
  "\<not> graphCreated self \<Longrightarrow> validateInit self p y li = Inl e \<Longrightarrow>
     call self p y li c = (Inl e, self, c)"
  by (simp add: call_def)




subsection \<open>The shape checks\<close>

lemma shape_checks_raise_AssertionError:
  assumes "\<not> graphCreated self"
    and "length (tshape predicted) \<noteq> 4
         \<or> int (tshape predicted ! 3) \<noteq> numOutput self
         \<or> int (tshape predicted ! 2) \<noteq> numTimeSteps self
         \<or> (2 \<le> length (tshape target) \<and> \<not> shape_checks_pass self predicted target)"
  shows "\<exists>m. call self predicted target lossIndicator c = (Inl (AssertionError m), self, c)"
proof -
  have "\<exists>m. validateInit self predicted target lossIndicator = Inl (AssertionError m)"
    using assms(2)
    by (auto simp: validateInit_def shape_checks_pass_def and_then_def assert_that_def
        getitem_def Let_def)
  then obtain m where "validateInit self predicted target lossIndicator = Inl (AssertionError m)"
    by blast
  from call_validation_error [OF assms(1) this] show ?thesis
    by blast
qed

lemma target_rank_below_two_raises_IndexError:
  assumes "\<not> graphCreated self"
    and "length (tshape predicted) = 4"
    and "int (tshape predicted ! 3) = numOutput self"
    and "int (tshape predicted ! 2) = numTimeSteps self"
    and "length (tshape target) < 2"
  shows "call self predicted target lossIndicator c = (Inl IndexError, self, c)"
proof -
  have "validateInit self predicted target lossIndicator = Inl IndexError"
    using assms(2-5)
    by (simp add: validateInit_def and_then_def assert_that_def getitem_def Let_def)
  from call_validation_error [OF assms(1) this] show ?thesis .
qed

text \<open>
  C2. The claim is that the first call raises an \<open>AssertionError\<close> whenever a shape check
  fails, in particular whenever \<open>target\<close> does not have exactly three dimensions. The
  source reads \<open>target.shape[1]\<close> one line before it asserts \<open>len(target.shape) == 3\<close>:
  with \<open>predicted\<close> of shape \<open>[5, 4, 3, 2]\<close> and a \<open>target\<close> of shape \<open>[5]\<close> the call
  raises \<open>IndexError\<close>, and the assertion on the rank of \<open>target\<close> is never reached.
\<close>

theorem target_rank_one_raises_IndexError:
  "length (tshape ex_flat_target) \<noteq> 3
   \<and> call (ex_trainer ''l2'' None True) ex_predicted ex_flat_target ex_indicator no_collections
       = (Inl IndexError, ex_trainer ''l2'' None True, no_collections)"
proof -
  have "call (ex_trainer ''l2'' None True) ex_predicted ex_flat_target ex_indicator no_collections
          = (Inl IndexError, ex_trainer ''l2'' None True, no_collections)"
    by (rule target_rank_below_two_raises_IndexError)
      (simp_all add: ex_trainer_def ex_predicted_def ex_flat_target_def)
  then show ?thesis
    by (simp add: ex_flat_target_def)
qed

subsection \<open>The mask check\<close>













subsection \<open>The training loop\<close>














end
